theory Spec2Isabelle
  imports Main "HOL-Library.Word"
begin

unbundle bit_operations_syntax

section \<open>Data model\<close>

text \<open>
  The update check response handed over by the upstream action. Only the fields
  that \<open>omaha_response_handler_action.cc\<close> reads are listed. \<open>size\<close> is
  written \<open>size_r\<close> since HOL already has a constant of that name.
\<close>

record OmahaResponse =
  update_exists :: bool
  version :: string
  size_r :: int
  hash :: string
  metadata_size :: int
  metadata_signature :: string
  public_key_rsa :: string
  payload_urls :: "string list"
  is_delta_payload :: bool
  deadline :: string

text \<open>
  The type of the install plan. Fields whose names the response already uses carry
  the prefix \<open>plan_\<close>.
\<close>

record InstallPlan =
  is_resume :: bool
  is_full_update :: bool
  download_url :: string
  plan_version :: string
  payload_size :: int
  payload_hash :: string
  plan_metadata_size :: int
  plan_metadata_signature :: string
  plan_public_key_rsa :: string
  hash_checks_mandatory :: bool
  install_path :: string
  kernel_install_path :: string
  powerwash_required :: bool

text \<open>
  The two completion codes this file passes to \<open>completer.set_code\<close>. The
  \<open>ScopedActionCompleter\<close> is constructed without a code; a run that never calls
  \<open>set_code\<close> completes with the code the completer was constructed with, which
  is fixed outside this file. Such a run is modelled by the completion \<open>None\<close>.
\<close>

datatype ErrorCode = kErrorCodeSuccess | kErrorCodeOmahaResponseInvalid

datatype Severity = INFO | WARNING | ERROR

type_synonym LogEntry = "Severity \<times> string"

text \<open>
  \<open>system_state_->payload_state()\<close>: the two values read from it, the flag
  written by \<open>SetUsingP2PForDownloading\<close>, and the sequence of mutating calls
  received, in order.
\<close>

datatype PayloadStateCall =
    SetUsingP2PForDownloadingCall bool
  | UpdateResumedCall
  | UpdateRestartedCall

record PayloadState =
  rollback_version :: string
  current_url :: string
  using_p2p_for_downloading :: bool
  payload_calls :: "PayloadStateCall list"

record OmahaRequestParams =
  use_p2p_for_downloading :: bool
  p2p_url :: string
  to_more_stable_channel :: bool
  is_powerwash_allowed :: bool

record Hardware =
  IsOfficialBuild :: bool
  BootDevice :: string

text \<open>
  The file system as far as the deadline file needs it: contents and permission bits
  per path, and the paths that cannot be opened for writing (a file whose permission
  bits deny it to the process, for one).
\<close>

record FileEntry =
  content :: string
  mode :: nat

record FileSystem =
  files :: "string \<rightharpoonup> FileEntry"
  unwritable :: "string list"

text \<open>
  Everything \<open>PerformAction\<close> reads or writes: the members of the action, its
  input and output pipes, the parts of \<open>system_state_\<close>, the file system and the
  messages of the \<open>LOG\<close> statements of this file. The preferences store is kept
  abstract (type \<open>'p\<close>). \<open>input_object = None\<close> stands for a missing input pipe.
  The members are written without the trailing underscore of the source
  (\<open>install_plan\<close> is \<open>install_plan_\<close>, and so on).
\<close>

record 'p World =
  install_plan :: InstallPlan
  got_no_update_response :: bool
  boot_device :: string
  deadline_file :: string
  input_object :: "OmahaResponse option"
  has_output_pipe :: bool
  output_object :: "InstallPlan option"
  payload_state :: PayloadState
  request_params :: OmahaRequestParams
  hardware :: Hardware
  prefs :: 'p
  filesystem :: FileSystem
  logs :: "LogEntry list"

text \<open>
  Functions and constants of the repository that this file calls and whose code lives
  in other files (\<open>delta_performer.cc\<close>, \<open>prefs.cc\<close>, \<open>utils.cc\<close>,
  \<open>constants.cc\<close>). They are parameters of the model. The calls that return
  \<open>bool\<close> and write through a pointer return the flag together with the new value.
\<close>

record 'p Services =
  CanResumeUpdate :: "'p \<Rightarrow> string \<Rightarrow> bool"
  ResetUpdateProgress :: "'p \<Rightarrow> bool \<Rightarrow> bool \<times> 'p"
  SetString :: "'p \<Rightarrow> string \<Rightarrow> string \<Rightarrow> bool \<times> 'p"
  GetInstallDev :: "string \<Rightarrow> string \<Rightarrow> bool \<times> string"
  KernelDeviceOfBootDevice :: "string \<Rightarrow> string"
  kPrefsUpdateCheckResponseHash :: string

section \<open>Library functions\<close>

text \<open>
  \<open>StartsWithASCII(str, search, case_sensitive)\<close> of libchrome: with
  \<open>case_sensitive\<close> it compares the first \<open>search.length()\<close> characters of
  \<open>str\<close> with \<open>search\<close>; without, it compares them with \<open>strncasecmp\<close>, that
  is after lower-casing the ASCII letters on both sides.
\<close>

definition ToLowerASCII :: "char \<Rightarrow> char" where
  "ToLowerASCII c =
     (let n = (of_char c :: nat)
      in if 65 \<le> n \<and> n \<le> 90 then char_of (n + 32) else c)"

definition StartsWithASCII :: "string \<Rightarrow> string \<Rightarrow> bool \<Rightarrow> bool" where
  "StartsWithASCII str search case_sensitive =
     (if case_sensitive then take (length search) str = search
      else map ToLowerASCII (take (length search) str) = map ToLowerASCII search)"

definition S_IRUSR :: nat where "S_IRUSR = 256"
definition S_IWUSR :: nat where "S_IWUSR = 128"
definition S_IRGRP :: nat where "S_IRGRP = 32"
definition S_IROTH :: nat where "S_IROTH = 4"

text \<open>
  Modelled from the spec: \<open>utils::WriteFile\<close> (in \<open>utils.cc\<close>, which is not
  among the sources). The spec says that the sink receives the raw byte sequence,
  overwriting prior contents, and that the write can fail. Here it fails, leaving
  the file as it is, when the path is one that cannot be opened for writing;
  otherwise the file holds the first \<open>count\<close> bytes of \<open>data\<close>. A new file
  gets the creation mode \<open>S_IRUSR | S_IWUSR\<close>, an existing one keeps its mode.
\<close>

definition WriteFile :: "FileSystem \<Rightarrow> string \<Rightarrow> string \<Rightarrow> nat \<Rightarrow> bool \<times> FileSystem" where
  "WriteFile fs path data count =
     (if path \<in> set (unwritable fs) then (False, fs)
      else (True, fs\<lparr>files := (files fs)(path \<mapsto>
              \<lparr>content = take count data,
               mode = (case files fs path of
                         None \<Rightarrow> S_IRUSR OR S_IWUSR
                       | Some f \<Rightarrow> mode f)\<rparr>)\<rparr>))"

text \<open>
  \<open>chmod(2)\<close>: sets the permission bits of an existing file and fails, changing
  nothing, on a missing one. Whether the file can be opened for writing plays no
  part: the bits of a file that a write was refused on are changed all the same.
  The source ignores the return value.
\<close>

definition chmod :: "FileSystem \<Rightarrow> string \<Rightarrow> nat \<Rightarrow> FileSystem" where
  "chmod fs path m =
     (case files fs path of
        None \<Rightarrow> fs
      | Some f \<Rightarrow> fs\<lparr>files := (files fs)(path \<mapsto> f\<lparr>mode := m\<rparr>)\<rparr>)"

section \<open>The action\<close>

definition kDeadlineFile :: string where
  "kDeadlineFile = ''/tmp/update-check-response-deadline''"

subsection \<open>Log messages\<close>

text \<open>The texts streamed into \<open>LOG\<close> by this file, in the order of the source.\<close>

definition msg_no_updates :: string where
  "msg_no_updates = ''There are no updates. Aborting.''"

definition msg_detected_rollback :: "string \<Rightarrow> string" where
  "msg_detected_rollback rollback = ''Detected previous rollback from version '' @ rollback"

definition msg_rolled_back_from :: string where
  "msg_rolled_back_from = ''Received version that we rolled back from. Aborting.''"

definition msg_no_suitable_urls :: string where
  "msg_no_suitable_urls = ''There are no suitable URLs in the response to use.''"

definition msg_replacing_url :: "string \<Rightarrow> string \<Rightarrow> string" where
  "msg_replacing_url url local =
     ''Replacing URL '' @ url @ '' with local URL '' @ local @ '' since p2p is enabled.''"

definition msg_reset_failed :: string where
  "msg_reset_failed = ''Unable to reset the update progress.''"

definition msg_save_failed :: string where
  "msg_save_failed = ''Unable to save the update check response hash.''"

definition msg_using_plan :: string where
  "msg_using_plan = ''Using this install plan:''"

definition msg_mandating_key :: string where
  "msg_mandating_key =
     ''Mandating payload hash checks since Omaha Response ''
     @ ''for unofficial build includes public RSA key.''"

definition msg_waiving_unofficial :: string where
  "msg_waiving_unofficial = ''Waiving payload hash checks for unofficial builds''"

definition msg_mandating_download_url :: string where
  "msg_mandating_download_url = ''Mandating hash checks since download_url is not HTTPS.''"

definition msg_mandating_non_https :: string where
  "msg_mandating_non_https =
     ''Mandating payload hash checks since Omaha response '' @ ''contains non-HTTPS URL(s)''"

definition msg_waiving_https :: string where
  "msg_waiving_https =
     ''Waiving payload hash checks since Omaha response '' @ ''only has HTTPS URL(s)''"

subsection \<open>Calls on the collaborators\<close>

definition LOG :: "Severity \<Rightarrow> string \<Rightarrow> 'p World \<Rightarrow> 'p World" where
  "LOG sev msg w = w\<lparr>logs := logs w @ [(sev, msg)]\<rparr>"

definition LOG_IF :: "Severity \<Rightarrow> bool \<Rightarrow> string \<Rightarrow> 'p World \<Rightarrow> 'p World" where
  "LOG_IF sev cond msg w = (if cond then LOG sev msg w else w)"

definition SetUsingP2PForDownloading :: "bool \<Rightarrow> 'p World \<Rightarrow> 'p World" where
  "SetUsingP2PForDownloading b w =
     w\<lparr>payload_state := (payload_state w)
          \<lparr>using_p2p_for_downloading := b,
           payload_calls := payload_calls (payload_state w) @ [SetUsingP2PForDownloadingCall b]\<rparr>\<rparr>"

definition UpdateResumed :: "'p World \<Rightarrow> 'p World" where
  "UpdateResumed w =
     w\<lparr>payload_state := (payload_state w)
          \<lparr>payload_calls := payload_calls (payload_state w) @ [UpdateResumedCall]\<rparr>\<rparr>"

definition UpdateRestarted :: "'p World \<Rightarrow> 'p World" where
  "UpdateRestarted w =
     w\<lparr>payload_state := (payload_state w)
          \<lparr>payload_calls := payload_calls (payload_state w) @ [UpdateRestartedCall]\<rparr>\<rparr>"

definition SetOutputObject :: "InstallPlan \<Rightarrow> 'p World \<Rightarrow> 'p World" where
  "SetOutputObject plan w = w\<lparr>output_object := Some plan\<rparr>"

subsection \<open>AreHashChecksMandatory\<close>

text \<open>
  The loop over \<open>response.payload_urls\<close>: it returns at the first URL that is
  not HTTPS.
\<close>

fun payload_urls_loop :: "string list \<Rightarrow> bool" where
  "payload_urls_loop [] = False"
| "payload_urls_loop (u # us) =
     (if \<not> StartsWithASCII u ''https://'' False then True else payload_urls_loop us)"

text \<open>
  \<open>AreHashChecksMandatory(response)\<close>. It reads \<open>install_plan_.download_url\<close>
  as \<open>PerformAction\<close> has set it by then, and logs one message on each path.
\<close>

definition AreHashChecksMandatory :: "'p World \<Rightarrow> OmahaResponse \<Rightarrow> bool \<times> 'p World" where
  "AreHashChecksMandatory w response =
     (if \<not> IsOfficialBuild (hardware w) then
        (if public_key_rsa response \<noteq> [] then (True, LOG INFO msg_mandating_key w)
         else (False, LOG INFO msg_waiving_unofficial w))
      else if \<not> StartsWithASCII (download_url (install_plan w)) ''https://'' False then
        (True, LOG INFO msg_mandating_download_url w)
      else if payload_urls_loop (payload_urls response) then
        (True, LOG INFO msg_mandating_non_https w)
      else (False, LOG INFO msg_waiving_https w))"

subsection \<open>PerformAction\<close>

text \<open>
  The function is one sequence of statements with early returns. It is cut here into
  its consecutive blocks, last block first; a block that can return early yields the
  code given to \<open>completer.set_code\<close> (\<open>None\<close> when the function returns
  without setting one) together with the state at the return.
\<close>

text \<open>
  From \<open>TEST_AND_RETURN(HasOutputPipe())\<close> to the end. \<open>TEST_AND_RETURN\<close>
  returns from the function when its argument is false. (\<open>install_plan_.Dump()\<close>
  prints through code outside this file and is left out of \<open>logs\<close>, as is the
  message of \<open>TEST_AND_RETURN\<close>.)
\<close>

definition PerformAction_output :: "OmahaResponse \<Rightarrow> 'p World \<Rightarrow> ErrorCode option \<times> 'p World" where
  "PerformAction_output response w =
     (if \<not> has_output_pipe w then (None, w)
      else
        (let w1 = (if has_output_pipe w then SetOutputObject (install_plan w) w else w);
             w2 = LOG INFO msg_using_plan w1;
             (written, fs1) = WriteFile (filesystem w2) (deadline_file w2)
                                (deadline response) (length (deadline response));
             fs2 = chmod fs1 (deadline_file w2) (S_IRUSR OR S_IWUSR OR S_IRGRP OR S_IROTH)
         in (Some kErrorCodeSuccess, w2\<lparr>filesystem := fs2\<rparr>)))"

text \<open>
  From \<open>TEST_AND_RETURN(utils::GetInstallDev(...))\<close> to the powerwash decision,
  then on to the output.
\<close>

definition PerformAction_device ::
  "'p Services \<Rightarrow> OmahaResponse \<Rightarrow> 'p World \<Rightarrow> ErrorCode option \<times> 'p World" where
  "PerformAction_device svc response w =
     (let boot = (if boot_device w \<noteq> [] then boot_device w else BootDevice (hardware w));
          (ok, path) = GetInstallDev svc boot (install_path (install_plan w));
          w1 = w\<lparr>install_plan := (install_plan w)\<lparr>install_path := path\<rparr>\<rparr>
      in if \<not> ok then (None, w1)
         else
           (let w2 = w1\<lparr>install_plan := (install_plan w1)
                       \<lparr>kernel_install_path :=
                          KernelDeviceOfBootDevice svc (install_path (install_plan w1))\<rparr>\<rparr>;
                params = request_params w2;
                w3 = (if to_more_stable_channel params \<and> is_powerwash_allowed params
                      then w2\<lparr>install_plan := (install_plan w2)\<lparr>powerwash_required := True\<rparr>\<rparr>
                      else w2)
            in PerformAction_output response w3))"

text \<open>
  The resume bookkeeping: from the assignment of \<open>install_plan_.is_resume\<close> to
  the end of the \<open>if\<close> that follows it. The two writes to the preferences are
  the conditions of \<open>LOG_IF(WARNING, ...)\<close>; they are evaluated as long as
  warnings are logged at all, which is taken for granted here.
\<close>

definition PerformAction_resume :: "'p Services \<Rightarrow> OmahaResponse \<Rightarrow> 'p World \<Rightarrow> 'p World" where
  "PerformAction_resume svc response w =
     (let w1 = w\<lparr>install_plan := (install_plan w)
                  \<lparr>is_resume := CanResumeUpdate svc (prefs w) (hash response)\<rparr>\<rparr>
      in if is_resume (install_plan w1) then UpdateResumed w1
         else
           (let w2 = UpdateRestarted w1;
                (reset_ok, p1) = ResetUpdateProgress svc (prefs w2) False;
                w3 = LOG_IF WARNING (\<not> reset_ok) msg_reset_failed (w2\<lparr>prefs := p1\<rparr>);
                (saved, p2) = SetString svc (prefs w3)
                                (kPrefsUpdateCheckResponseHash svc) (hash response)
            in LOG_IF WARNING (\<not> saved) msg_save_failed (w3\<lparr>prefs := p2\<rparr>)))"

text \<open>
  The properties copied from the response, and the hash check policy: from the
  assignment of \<open>install_plan_.payload_size\<close> to that of
  \<open>install_plan_.hash_checks_mandatory\<close>.
\<close>

definition PerformAction_fields :: "OmahaResponse \<Rightarrow> 'p World \<Rightarrow> 'p World" where
  "PerformAction_fields response w =
     (let w1 = w\<lparr>install_plan := (install_plan w)
                  \<lparr>payload_size := size_r response,
                   payload_hash := hash response,
                   plan_metadata_size := metadata_size response,
                   plan_metadata_signature := metadata_signature response,
                   plan_public_key_rsa := public_key_rsa response\<rparr>\<rparr>;
          (mandatory, w2) = AreHashChecksMandatory w1 response
      in w2\<lparr>install_plan := (install_plan w2)\<lparr>hash_checks_mandatory := mandatory\<rparr>\<rparr>)"

text \<open>
  The download URL: from the assignment of \<open>install_plan_.download_url\<close> to the
  end of the p2p substitution.
\<close>

definition PerformAction_download_url :: "OmahaResponse \<Rightarrow> string \<Rightarrow> 'p World \<Rightarrow> 'p World" where
  "PerformAction_download_url response url w =
     (let w1 = w\<lparr>install_plan := (install_plan w)
                  \<lparr>download_url := url, plan_version := version response\<rparr>\<rparr>;
          params = request_params w1
      in if use_p2p_for_downloading params \<and> p2p_url params \<noteq> [] then
           (let w2 = LOG INFO (msg_replacing_url (download_url (install_plan w1))
                                 (p2p_url params)) w1;
                w3 = w2\<lparr>install_plan := (install_plan w2)\<lparr>download_url := p2p_url params\<rparr>\<rparr>
            in SetUsingP2PForDownloading True w3)
         else w1)"

text \<open>
  The three blocks above in sequence, closed by the assignment of
  \<open>install_plan_.is_full_update\<close>.
\<close>

definition PerformAction_plan ::
  "'p Services \<Rightarrow> OmahaResponse \<Rightarrow> string \<Rightarrow> 'p World \<Rightarrow> 'p World" where
  "PerformAction_plan svc response url w =
     (let w1 = PerformAction_download_url response url w;
          w2 = PerformAction_fields response w1;
          w3 = PerformAction_resume svc response w2
      in w3\<lparr>install_plan := (install_plan w3)
              \<lparr>is_full_update := \<not> is_delta_payload response\<rparr>\<rparr>)"

text \<open>
  From the query of the current URL on.
\<close>

definition PerformAction_url ::
  "'p Services \<Rightarrow> OmahaResponse \<Rightarrow> 'p World \<Rightarrow> ErrorCode option \<times> 'p World" where
  "PerformAction_url svc response w =
     (let url = current_url (payload_state w)
      in if url = [] then
           (Some kErrorCodeOmahaResponseInvalid, LOG ERROR msg_no_suitable_urls w)
         else PerformAction_device svc response (PerformAction_plan svc response url w))"

text \<open>
  \<open>PerformAction\<close>. \<open>CHECK(HasInputObject())\<close> aborts the process when there is
  no input; that is the result \<open>None\<close>.
\<close>

definition PerformAction ::
  "'p Services \<Rightarrow> 'p World \<Rightarrow> (ErrorCode option \<times> 'p World) option" where
  "PerformAction svc w =
     (case input_object w of
        None \<Rightarrow> None
      | Some response \<Rightarrow>
          Some
            (if \<not> update_exists response then
               (None, LOG INFO msg_no_updates (w\<lparr>got_no_update_response := True\<rparr>))
             else
               (let rollback = rollback_version (payload_state w);
                    w1 = (if rollback \<noteq> [] then LOG INFO (msg_detected_rollback rollback) w
                          else w)
                in if rollback \<noteq> [] \<and> rollback = version response then
                     (None, LOG INFO msg_rolled_back_from w1)
                   else PerformAction_url svc response w1)))"

section \<open>Vocabulary of the properties\<close>

text \<open>
  The conditions under which \<open>PerformAction\<close> takes each of its returns, and
  what one run added to the two histories kept in the state.
\<close>

definition rollback_applies :: "'p World \<Rightarrow> OmahaResponse \<Rightarrow> bool" where
  "rollback_applies w response =
     (rollback_version (payload_state w) \<noteq> []
      \<and> rollback_version (payload_state w) = version response)"

text \<open>
  The state after the message that \<open>PerformAction\<close> logs when a rollback
  version is stored at all.
\<close>

definition note_rollback :: "'p World \<Rightarrow> 'p World" where
  "note_rollback w =
     (if rollback_version (payload_state w) \<noteq> []
      then LOG INFO (msg_detected_rollback (rollback_version (payload_state w))) w else w)"

text \<open>
  Peer-assisted downloading is "in use" when it is enabled and a peer URL is known;
  the resolved URL is then the peer URL, else the current URL.
\<close>

definition p2p_in_use :: "'p World \<Rightarrow> bool" where
  "p2p_in_use w =
     (use_p2p_for_downloading (request_params w) \<and> p2p_url (request_params w) \<noteq> [])"

definition resolved_url :: "'p World \<Rightarrow> string" where
  "resolved_url w =
     (if p2p_in_use w then p2p_url (request_params w) else current_url (payload_state w))"

text \<open>
  The call of \<open>utils::GetInstallDev\<close> as \<open>PerformAction\<close> makes it: on the
  boot device override if one was set, else on the boot device of the hardware.
\<close>

definition install_dev_result :: "'p Services \<Rightarrow> 'p World \<Rightarrow> bool \<times> string" where
  "install_dev_result svc w =
     GetInstallDev svc
       (if boot_device w \<noteq> [] then boot_device w else BootDevice (hardware w))
       (install_path (install_plan w))"

definition install_dev_resolves :: "'p Services \<Rightarrow> 'p World \<Rightarrow> bool" where
  "install_dev_resolves svc w = fst (install_dev_result svc w)"

text \<open>
  The write of the deadline file as \<open>PerformAction\<close> issues it.
\<close>

definition deadline_write :: "'p World \<Rightarrow> OmahaResponse \<Rightarrow> bool \<times> FileSystem" where
  "deadline_write w response =
     WriteFile (filesystem w) (deadline_file w) (deadline response) (length (deadline response))"

text \<open>
  The calls on the payload state and the log entries that a run from \<open>w\<close> to
  \<open>w'\<close> added, and the message that \<open>AreHashChecksMandatory\<close> logs.
\<close>

definition calls_made :: "'p World \<Rightarrow> 'p World \<Rightarrow> PayloadStateCall list" where
  "calls_made w w' =
     drop (length (payload_calls (payload_state w))) (payload_calls (payload_state w'))"

definition logged :: "'p World \<Rightarrow> 'p World \<Rightarrow> LogEntry list" where
  "logged w w' = drop (length (logs w)) (logs w')"

definition hash_policy_message :: "'p World \<Rightarrow> OmahaResponse \<Rightarrow> string" where
  "hash_policy_message w r = snd (last (logs (snd (AreHashChecksMandatory w r))))"

section \<open>Test doubles and sample runs\<close>

text \<open>
  Stand-ins for the collaborators, in the manner of the fakes of the unit tests: the
  preferences are an association list, the device pair is \<open>/dev/sda3\<close> and
  \<open>/dev/sda5\<close>. In the second one every write to the preferences fails.
\<close>

definition fake_services :: "(string \<times> string) list Services" where
  "fake_services =
     \<lparr>CanResumeUpdate = (\<lambda>p h. map_of p ''update-check-response-hash'' = Some h),
      ResetUpdateProgress = (\<lambda>p quick. (True, (''update-state-next-operation'', ''-1'') # p)),
      SetString = (\<lambda>p k v. (True, (k, v) # p)),
      GetInstallDev = (\<lambda>boot old.
         if boot = ''/dev/sda3'' then (True, ''/dev/sda5'')
         else if boot = ''/dev/sda5'' then (True, ''/dev/sda3'')
         else (False, old)),
      KernelDeviceOfBootDevice = (\<lambda>dev.
         if dev = ''/dev/sda5'' then ''/dev/sda4''
         else if dev = ''/dev/sda3'' then ''/dev/sda2'' else []),
      kPrefsUpdateCheckResponseHash = ''update-check-response-hash''\<rparr>"

definition failing_prefs_services :: "(string \<times> string) list Services" where
  "failing_prefs_services =
     fake_services\<lparr>ResetUpdateProgress := (\<lambda>p quick. (False, p)),
                   SetString := (\<lambda>p k v. (False, p))\<rparr>"

text \<open>
  The sample of the specification: an official build is offered version 1.2.3 over
  HTTPS, nothing is stored from an earlier attempt.
\<close>

definition example_response :: OmahaResponse where
  "example_response =
     \<lparr>update_exists = True, version = ''1.2.3'', size_r = 1000, hash = ''abc'',
      metadata_size = 0, metadata_signature = [], public_key_rsa = [],
      payload_urls = [''https://a''], is_delta_payload = True, deadline = ''D1''\<rparr>"

definition example_world :: "(string \<times> string) list World" where
  "example_world =
     \<lparr>install_plan =
        \<lparr>is_resume = False, is_full_update = False, download_url = [], plan_version = [],
         payload_size = 0, payload_hash = [], plan_metadata_size = 0,
         plan_metadata_signature = [], plan_public_key_rsa = [],
         hash_checks_mandatory = False, install_path = [], kernel_install_path = [],
         powerwash_required = False\<rparr>,
      got_no_update_response = False,
      boot_device = [],
      deadline_file = kDeadlineFile,
      input_object = Some example_response,
      has_output_pipe = True,
      output_object = None,
      payload_state =
        \<lparr>rollback_version = [], current_url = ''https://a'',
         using_p2p_for_downloading = False, payload_calls = []\<rparr>,
      request_params =
        \<lparr>use_p2p_for_downloading = False, p2p_url = [],
         to_more_stable_channel = False, is_powerwash_allowed = False\<rparr>,
      hardware = \<lparr>IsOfficialBuild = True, BootDevice = ''/dev/sda3''\<rparr>,
      prefs = [],
      filesystem = \<lparr>files = Map.empty, unwritable = []\<rparr>,
      logs = []\<rparr>"

text \<open>
  Variations of the sample, one for each return of \<open>PerformAction\<close> and for the
  policies looked at below.
\<close>

definition upper_case_world :: "(string \<times> string) list World" where
  "upper_case_world =
     example_world
       \<lparr>input_object := Some (example_response\<lparr>payload_urls := [''HTTPS://a'']\<rparr>),
        payload_state := (payload_state example_world)\<lparr>current_url := ''HTTPS://a''\<rparr>\<rparr>"

definition no_output_pipe_world :: "(string \<times> string) list World" where
  "no_output_pipe_world = example_world\<lparr>has_output_pipe := False\<rparr>"

definition write_fails_world :: "(string \<times> string) list World" where
  "write_fails_world =
     example_world
       \<lparr>filesystem :=
          \<lparr>files = [kDeadlineFile \<mapsto> \<lparr>content = ''old'', mode = 292\<rparr>],
           unwritable = [kDeadlineFile]\<rparr>\<rparr>"


definition device_failure_world :: "(string \<times> string) list World" where
  "device_failure_world =
     example_world\<lparr>hardware := \<lparr>IsOfficialBuild = True, BootDevice = ''/dev/sda9''\<rparr>\<rparr>"

definition rollback_world :: "(string \<times> string) list World" where
  "rollback_world =
     example_world\<lparr>payload_state := (payload_state example_world)\<lparr>rollback_version := ''1.2.3''\<rparr>\<rparr>"

definition empty_url_world :: "(string \<times> string) list World" where
  "empty_url_world =
     example_world\<lparr>payload_state := (payload_state example_world)\<lparr>current_url := []\<rparr>\<rparr>"

definition resume_world :: "(string \<times> string) list World" where
  "resume_world = example_world\<lparr>prefs := [(''update-check-response-hash'', ''abc'')]\<rparr>"

definition empty_deadline_world :: "(string \<times> string) list World" where
  "empty_deadline_world =
     example_world\<lparr>input_object := Some (example_response\<lparr>deadline := []\<rparr>)\<rparr>"

definition p2p_world :: "(string \<times> string) list World" where
  "p2p_world =
     example_world
       \<lparr>request_params := (request_params example_world)
          \<lparr>use_p2p_for_downloading := True, p2p_url := ''http://10.0.0.7:1234/payload''\<rparr>\<rparr>"

definition p2p_was_used_world :: "(string \<times> string) list World" where
  "p2p_was_used_world =
     example_world
       \<lparr>payload_state := (payload_state example_world)\<lparr>using_p2p_for_downloading := True\<rparr>\<rparr>"

definition no_update_rollback_world :: "(string \<times> string) list World" where
  "no_update_rollback_world =
     rollback_world\<lparr>input_object := Some (example_response\<lparr>update_exists := False\<rparr>)\<rparr>"

section \<open>Each block in closed form\<close>

text \<open>
  What each block of \<open>PerformAction\<close> does to the state, written as one record
  update, and what the three blocks that fill in the plan do to each field.
\<close>

lemma payload_urls_loop_iff:
  "payload_urls_loop us = (\<exists>u \<in> set us. \<not> StartsWithASCII u ''https://'' False)"
  by (induction us) auto

lemma AreHashChecksMandatory_fst:
  "fst (AreHashChecksMandatory w r) =
     (if \<not> IsOfficialBuild (hardware w) then public_key_rsa r \<noteq> []
      else \<not> StartsWithASCII (download_url (install_plan w)) ''https://'' False
           \<or> payload_urls_loop (payload_urls r))"
  by (simp add: AreHashChecksMandatory_def)

lemma AreHashChecksMandatory_snd:
  "snd (AreHashChecksMandatory w r) = LOG INFO (hash_policy_message w r) w"
  by (simp add: hash_policy_message_def AreHashChecksMandatory_def LOG_def)

lemma download_url_block:
  "PerformAction_download_url r url w =
     (if p2p_in_use w then
        w\<lparr>install_plan := (install_plan w)
             \<lparr>download_url := p2p_url (request_params w), plan_version := version r\<rparr>,
          payload_state := (payload_state w)
             \<lparr>using_p2p_for_downloading := True,
              payload_calls := payload_calls (payload_state w)
                 @ [SetUsingP2PForDownloadingCall True]\<rparr>,
          logs := logs w @ [(INFO, msg_replacing_url url (p2p_url (request_params w)))]\<rparr>
      else w\<lparr>install_plan := (install_plan w)\<lparr>download_url := url, plan_version := version r\<rparr>\<rparr>)"
  by (simp add: PerformAction_download_url_def p2p_in_use_def LOG_def
      SetUsingP2PForDownloading_def Let_def)

lemma fields_block:
  "PerformAction_fields r w =
     w\<lparr>install_plan := (install_plan w)
          \<lparr>payload_size := size_r r, payload_hash := hash r,
           plan_metadata_size := metadata_size r,
           plan_metadata_signature := metadata_signature r,
           plan_public_key_rsa := public_key_rsa r,
           hash_checks_mandatory :=
             (if \<not> IsOfficialBuild (hardware w) then public_key_rsa r \<noteq> []
              else \<not> StartsWithASCII (download_url (install_plan w)) ''https://'' False
                   \<or> payload_urls_loop (payload_urls r))\<rparr>,
       logs := logs w @ [(INFO, hash_policy_message
                 (w\<lparr>install_plan := (install_plan w)
                      \<lparr>payload_size := size_r r, payload_hash := hash r,
                       plan_metadata_size := metadata_size r,
                       plan_metadata_signature := metadata_signature r,
                       plan_public_key_rsa := public_key_rsa r\<rparr>\<rparr>) r)]\<rparr>"
  by (simp add: PerformAction_fields_def Let_def split_beta AreHashChecksMandatory_fst
      AreHashChecksMandatory_snd LOG_def)

lemma resume_block:
  "PerformAction_resume svc r w =
     (if CanResumeUpdate svc (prefs w) (hash r) then
        w\<lparr>install_plan := (install_plan w)\<lparr>is_resume := True\<rparr>,
          payload_state := (payload_state w)
            \<lparr>payload_calls := payload_calls (payload_state w) @ [UpdateResumedCall]\<rparr>\<rparr>
      else
        w\<lparr>install_plan := (install_plan w)\<lparr>is_resume := False\<rparr>,
          payload_state := (payload_state w)
            \<lparr>payload_calls := payload_calls (payload_state w) @ [UpdateRestartedCall]\<rparr>,
          prefs := snd (SetString svc (snd (ResetUpdateProgress svc (prefs w) False))
                          (kPrefsUpdateCheckResponseHash svc) (hash r)),
          logs := logs w
             @ (if fst (ResetUpdateProgress svc (prefs w) False) then []
                else [(WARNING, msg_reset_failed)])
             @ (if fst (SetString svc (snd (ResetUpdateProgress svc (prefs w) False))
                          (kPrefsUpdateCheckResponseHash svc) (hash r)) then []
                else [(WARNING, msg_save_failed)])\<rparr>)"
  by (simp add: PerformAction_resume_def UpdateResumed_def UpdateRestarted_def
      LOG_IF_def LOG_def Let_def split_beta)

lemmas plan_blocks = PerformAction_plan_def Let_def download_url_block fields_block resume_block

lemma plan_frame:
  "got_no_update_response (PerformAction_plan svc r url w) = got_no_update_response w"
  "boot_device (PerformAction_plan svc r url w) = boot_device w"
  "deadline_file (PerformAction_plan svc r url w) = deadline_file w"
  "input_object (PerformAction_plan svc r url w) = input_object w"
  "has_output_pipe (PerformAction_plan svc r url w) = has_output_pipe w"
  "output_object (PerformAction_plan svc r url w) = output_object w"
  "request_params (PerformAction_plan svc r url w) = request_params w"
  "hardware (PerformAction_plan svc r url w) = hardware w"
  "filesystem (PerformAction_plan svc r url w) = filesystem w"
  "install_path (install_plan (PerformAction_plan svc r url w)) = install_path (install_plan w)"
  by (simp_all add: plan_blocks)

lemma plan_version:
  "plan_version (install_plan (PerformAction_plan svc r url w)) = version r"
  by (simp add: plan_blocks)

lemma plan_download_url:
  "download_url (install_plan (PerformAction_plan svc r url w)) =
     (if p2p_in_use w then p2p_url (request_params w) else url)"
  by (simp add: plan_blocks)

lemma plan_hash_checks:
  "hash_checks_mandatory (install_plan (PerformAction_plan svc r url w)) =
     (if \<not> IsOfficialBuild (hardware w) then public_key_rsa r \<noteq> []
      else \<not> StartsWithASCII (download_url (install_plan (PerformAction_plan svc r url w)))
               ''https://'' False
           \<or> payload_urls_loop (payload_urls r))"
  by (simp add: plan_blocks)

lemma plan_is_resume:
  "is_resume (install_plan (PerformAction_plan svc r url w)) = CanResumeUpdate svc (prefs w) (hash r)"
  by (simp add: plan_blocks)

lemma plan_prefs:
  "prefs (PerformAction_plan svc r url w) =
     (if CanResumeUpdate svc (prefs w) (hash r) then prefs w
      else snd (SetString svc (snd (ResetUpdateProgress svc (prefs w) False))
                  (kPrefsUpdateCheckResponseHash svc) (hash r)))"
  by (simp add: plan_blocks)

lemma plan_using_p2p:
  "using_p2p_for_downloading (payload_state (PerformAction_plan svc r url w)) =
     (p2p_in_use w \<or> using_p2p_for_downloading (payload_state w))"
  by (simp add: plan_blocks)

lemma plan_calls:
  "payload_calls (payload_state (PerformAction_plan svc r url w)) =
     payload_calls (payload_state w)
       @ (if p2p_in_use w then [SetUsingP2PForDownloadingCall True] else [])
       @ [if CanResumeUpdate svc (prefs w) (hash r) then UpdateResumedCall
          else UpdateRestartedCall]"
  by (simp add: plan_blocks)

lemma output_block:
  "PerformAction_output r w =
     (if has_output_pipe w then
        (Some kErrorCodeSuccess,
         w\<lparr>output_object := Some (install_plan w),
           logs := logs w @ [(INFO, msg_using_plan)],
           filesystem := chmod (snd (deadline_write w r)) (deadline_file w)
                           (S_IRUSR OR S_IWUSR OR S_IRGRP OR S_IROTH)\<rparr>)
      else (None, w))"
  by (simp add: PerformAction_output_def SetOutputObject_def LOG_def Let_def split_beta
      deadline_write_def)

lemma device_block:
  "PerformAction_device svc r w =
     (let path = snd (install_dev_result svc w)
      in if install_dev_resolves svc w then
           PerformAction_output r
             (w\<lparr>install_plan := (install_plan w)
                  \<lparr>install_path := path,
                   kernel_install_path := KernelDeviceOfBootDevice svc path,
                   powerwash_required :=
                     (to_more_stable_channel (request_params w)
                      \<and> is_powerwash_allowed (request_params w)
                      \<or> powerwash_required (install_plan w))\<rparr>\<rparr>)
         else (None, w\<lparr>install_plan := (install_plan w)\<lparr>install_path := path\<rparr>\<rparr>))"
  by (auto simp add: PerformAction_device_def install_dev_resolves_def install_dev_result_def
      Let_def split_beta
      intro!: arg_cong2[where f=PerformAction_output])

section \<open>The runs of PerformAction\<close>

text \<open>
  Which return a run takes, the code it sets and the state it leaves, in terms of the
  conditions defined above.
\<close>

lemma note_rollback_frame:
  "install_plan (note_rollback w) = install_plan w"
  "got_no_update_response (note_rollback w) = got_no_update_response w"
  "boot_device (note_rollback w) = boot_device w"
  "deadline_file (note_rollback w) = deadline_file w"
  "input_object (note_rollback w) = input_object w"
  "has_output_pipe (note_rollback w) = has_output_pipe w"
  "output_object (note_rollback w) = output_object w"
  "payload_state (note_rollback w) = payload_state w"
  "request_params (note_rollback w) = request_params w"
  "hardware (note_rollback w) = hardware w"
  "prefs (note_rollback w) = prefs w"
  "filesystem (note_rollback w) = filesystem w"
  by (simp_all add: note_rollback_def LOG_def)

lemma note_rollback_logs:
  "logs (note_rollback w) =
     logs w @ (if rollback_version (payload_state w) \<noteq> []
               then [(INFO, msg_detected_rollback (rollback_version (payload_state w)))] else [])"
  by (simp add: note_rollback_def LOG_def)

lemma note_rollback_preds:
  "p2p_in_use (note_rollback w) = p2p_in_use w"
  "install_dev_result svc (note_rollback w) = install_dev_result svc w"
  "install_dev_resolves svc (note_rollback w) = install_dev_resolves svc w"
  "deadline_write (note_rollback w) r = deadline_write w r"
  by (simp_all add: p2p_in_use_def install_dev_resolves_def install_dev_result_def
      deadline_write_def note_rollback_frame)

lemma deadline_write_install_plan:
  "deadline_write (w\<lparr>install_plan := p\<rparr>) r = deadline_write w r"
  by (simp add: deadline_write_def)

lemma plan_preds:
  "install_dev_result svc (PerformAction_plan svc r url w) = install_dev_result svc w"
  "install_dev_resolves svc (PerformAction_plan svc r url w) = install_dev_resolves svc w"
  "deadline_write (PerformAction_plan svc r url w) r' = deadline_write w r'"
  by (simp_all add: install_dev_resolves_def install_dev_result_def deadline_write_def plan_frame)

lemma plan_logs:
  "logs (PerformAction_plan svc r url w) =
     logs w
       @ (if p2p_in_use w then [(INFO, msg_replacing_url url (p2p_url (request_params w)))] else [])
       @ [(INFO, hash_policy_message
             (PerformAction_download_url r url w
                \<lparr>install_plan := (install_plan (PerformAction_download_url r url w))
                   \<lparr>payload_size := size_r r, payload_hash := hash r,
                    plan_metadata_size := metadata_size r,
                    plan_metadata_signature := metadata_signature r,
                    plan_public_key_rsa := public_key_rsa r\<rparr>\<rparr>) r)]
       @ (if CanResumeUpdate svc (prefs w) (hash r) then []
          else (if fst (ResetUpdateProgress svc (prefs w) False) then []
                else [(WARNING, msg_reset_failed)])
             @ (if fst (SetString svc (snd (ResetUpdateProgress svc (prefs w) False))
                          (kPrefsUpdateCheckResponseHash svc) (hash r)) then []
                else [(WARNING, msg_save_failed)]))"
  by (simp add: PerformAction_plan_def Let_def fields_block resume_block)
     (simp add: download_url_block)

lemma PerformAction_run:
  assumes "input_object w = Some r"
  shows "PerformAction svc w =
     Some (if \<not> update_exists r then
             (None, LOG INFO msg_no_updates (w\<lparr>got_no_update_response := True\<rparr>))
           else if rollback_applies w r then
             (None, LOG INFO msg_rolled_back_from (note_rollback w))
           else if current_url (payload_state w) = [] then
             (Some kErrorCodeOmahaResponseInvalid, LOG ERROR msg_no_suitable_urls (note_rollback w))
           else PerformAction_device svc r
                  (PerformAction_plan svc r (current_url (payload_state w)) (note_rollback w)))"
proof -
  have "payload_state (LOG sev msg w) = payload_state w" for sev msg
    by (simp add: LOG_def)
  then show ?thesis
    using assms
    by (simp add: PerformAction_def PerformAction_url_def rollback_applies_def
        note_rollback_def Let_def)
qed

lemma PerformAction_code:
  assumes "input_object w = Some r"
  shows "map_option fst (PerformAction svc w) =
     Some (if \<not> update_exists r \<or> rollback_applies w r then None
           else if current_url (payload_state w) = [] then Some kErrorCodeOmahaResponseInvalid
           else if install_dev_resolves svc w \<and> has_output_pipe w then Some kErrorCodeSuccess
           else None)"
  by (simp add: PerformAction_run[OF assms] device_block output_block Let_def
      plan_preds note_rollback_preds plan_frame note_rollback_frame)

lemma PerformAction_success_iff:
  assumes "input_object w = Some r" and "PerformAction svc w = Some (code, w')"
  shows "code = Some kErrorCodeSuccess \<longleftrightarrow>
           update_exists r \<and> \<not> rollback_applies w r \<and> current_url (payload_state w) \<noteq> []
           \<and> install_dev_resolves svc w \<and> has_output_pipe w"
  using PerformAction_code[OF assms(1), of svc] assms(2)
  by (auto split: if_splits)

lemma PerformAction_success:
  assumes "input_object w = Some r" and "PerformAction svc w = Some (Some kErrorCodeSuccess, w')"
  shows "w' =
     (let wp = PerformAction_plan svc r (current_url (payload_state w)) (note_rollback w);
          path = snd (install_dev_result svc w);
          plan = (install_plan wp)
                   \<lparr>install_path := path,
                    kernel_install_path := KernelDeviceOfBootDevice svc path,
                    powerwash_required :=
                      (to_more_stable_channel (request_params w)
                       \<and> is_powerwash_allowed (request_params w)
                       \<or> powerwash_required (install_plan wp))\<rparr>
      in wp\<lparr>install_plan := plan,
            output_object := Some plan,
            logs := logs wp @ [(INFO, msg_using_plan)],
            filesystem := chmod (snd (deadline_write w r)) (deadline_file w)
                            (S_IRUSR OR S_IWUSR OR S_IRGRP OR S_IROTH)\<rparr>)"
proof -
  have c: "update_exists r" "\<not> rollback_applies w r" "current_url (payload_state w) \<noteq> []"
    "install_dev_resolves svc w" "has_output_pipe w"
    using PerformAction_success_iff[OF assms] by simp_all
  show ?thesis
    using assms(2) c
    by (simp add: PerformAction_run[OF assms(1)] device_block output_block Let_def
        plan_preds note_rollback_preds plan_frame note_rollback_frame
        deadline_write_install_plan)
qed

lemma PerformAction_reaches_plan:
  assumes "input_object w = Some r" and "PerformAction svc w = Some (code, w')"
    and "update_exists r" and "\<not> rollback_applies w r" and "current_url (payload_state w) \<noteq> []"
  shows "payload_state w' =
           payload_state (PerformAction_plan svc r (current_url (payload_state w)) (note_rollback w))"
    and "prefs w' = prefs (PerformAction_plan svc r (current_url (payload_state w)) (note_rollback w))"
    and "is_resume (install_plan w') = CanResumeUpdate svc (prefs w) (hash r)"
    and "\<not> (install_dev_resolves svc w \<and> has_output_pipe w) \<Longrightarrow>
           code = None \<and> output_object w' = output_object w \<and> filesystem w' = filesystem w"
  using assms(2-5)
  by (auto simp add: PerformAction_run[OF assms(1)] device_block output_block Let_def
      plan_preds note_rollback_preds plan_frame note_rollback_frame plan_is_resume
      split: if_splits)

lemma PerformAction_stops_early:
  assumes "input_object w = Some r" and "PerformAction svc w = Some (code, w')"
    and "\<not> update_exists r \<or> rollback_applies w r \<or> current_url (payload_state w) = []"
  shows "payload_state w' = payload_state w" and "prefs w' = prefs w"
    and "output_object w' = output_object w" and "filesystem w' = filesystem w"
    and "install_plan w' = install_plan w"
    and "code \<noteq> Some kErrorCodeSuccess"
  using assms(2,3)
  by (auto simp add: PerformAction_run[OF assms(1)] LOG_def note_rollback_frame
      split: if_splits)

lemma PerformAction_input:
  assumes "PerformAction svc w = Some (code, w')"
  obtains r where "input_object w = Some r"
  using assms by (cases "input_object w") (simp_all add: PerformAction_def)

lemma produced_plan_url:
  assumes "input_object w = Some r"
    and "PerformAction svc w = Some (Some kErrorCodeSuccess, w')"
  shows "output_object w' = Some (install_plan w')"
    and "download_url (install_plan w') = resolved_url w"
  unfolding PerformAction_success[OF assms]
  by (simp_all add: Let_def plan_download_url note_rollback_preds note_rollback_frame
      resolved_url_def)

lemma logged_append: "logs w' = logs w @ xs \<Longrightarrow> logged w w' = xs"
  by (simp add: logged_def)

lemma calls_made_append:
  "payload_calls (payload_state w') = payload_calls (payload_state w) @ xs \<Longrightarrow> calls_made w w' = xs"
  by (simp add: calls_made_def)

lemma services_update_preds:
  "install_dev_resolves (svc\<lparr>ResetUpdateProgress := reset, SetString := save\<rparr>) w
     = install_dev_resolves svc w"
  by (simp add: install_dev_resolves_def install_dev_result_def)

text \<open>The equations that evaluate a run on the samples.\<close>

lemmas run_defs = PerformAction_def PerformAction_url_def PerformAction_plan_def Let_def
  download_url_block fields_block resume_block device_block output_block
  fake_services_def failing_prefs_services_def example_world_def example_response_def
  p2p_in_use_def rollback_applies_def install_dev_resolves_def install_dev_result_def
  deadline_write_def resolved_url_def calls_made_def logged_def LOG_def
  WriteFile_def chmod_def kDeadlineFile_def
  StartsWithASCII_def ToLowerASCII_def char_of_def bit_Suc_0_iff

section \<open>The properties\<close>

subsection \<open>Hash check policy\<close>

text \<open>
  C1, read literally ("starts with https://"), does not hold: the code compares the
  scheme without regard to case. On an official build whose current URL and only
  payload URL are \<open>HTTPS://a\<close>, a plan is produced, its download URL does not
  start with the characters \<open>https://\<close>, and yet the hash checks are waived.
\<close>

theorem hash_policy_literal_prefix_counterexample:
  "IsOfficialBuild (hardware upper_case_world)
   \<and> map_option fst (PerformAction fake_services upper_case_world) = Some (Some kErrorCodeSuccess)
   \<and> map_option (download_url \<circ> install_plan \<circ> snd) (PerformAction fake_services upper_case_world)
       = Some ''HTTPS://a''
   \<and> \<not> StartsWithASCII ''HTTPS://a'' ''https://'' True
   \<and> map_option (hash_checks_mandatory \<circ> install_plan \<circ> snd)
        (PerformAction fake_services upper_case_world) = Some False"
  by (simp add: upper_case_world_def run_defs)

text \<open>
  C1 (amended): whenever a plan is produced, its download URL is the resolved URL (the
  peer URL when peer-assisted downloading is in use, else the current URL), and
  \<open>hash_checks_mandatory\<close> follows the truth table with "secure" meaning that the
  URL starts with \<open>https://\<close> compared without regard to ASCII case: on an
  unofficial build it says whether the response carries a public key; on an official
  build it is true iff the resolved URL or some payload URL is not secure.
\<close>

theorem hash_checks_mandatory_policy:
  assumes "input_object w = Some response"
    and "PerformAction svc w = Some (Some kErrorCodeSuccess, w')"
  shows "output_object w' = Some (install_plan w')
     \<and> download_url (install_plan w') = resolved_url w
     \<and> hash_checks_mandatory (install_plan w') =
         (if \<not> IsOfficialBuild (hardware w) then public_key_rsa response \<noteq> []
          else \<not> StartsWithASCII (resolved_url w) ''https://'' False
               \<or> (\<exists>u \<in> set (payload_urls response). \<not> StartsWithASCII u ''https://'' False))"
proof -
  have c: "update_exists response" "\<not> rollback_applies w response"
    "current_url (payload_state w) \<noteq> []" "install_dev_resolves svc w" "has_output_pipe w"
    using PerformAction_success_iff[OF assms] by simp_all
  show ?thesis
    unfolding PerformAction_success[OF assms]
    by (simp add: Let_def plan_download_url plan_hash_checks note_rollback_preds
        note_rollback_frame resolved_url_def payload_urls_loop_iff)
qed

theorem hash_checks_mandatory_policy_witness:
  "input_object example_world = Some example_response
   \<and> PerformAction fake_services example_world
       = Some (Some kErrorCodeSuccess, snd (the (PerformAction fake_services example_world)))
   \<and> IsOfficialBuild (hardware example_world)
   \<and> download_url (install_plan (snd (the (PerformAction fake_services example_world)))) = ''https://a''
   \<and> hash_checks_mandatory (install_plan (snd (the (PerformAction fake_services example_world)))) = False"
proof -
  have inp: "input_object example_world = Some example_response"
    by (simp add: example_world_def)
  have run: "PerformAction fake_services example_world
       = Some (Some kErrorCodeSuccess, snd (the (PerformAction fake_services example_world)))"
    by (simp add: run_defs)
  show ?thesis
    using hash_checks_mandatory_policy[OF inp run] inp run
    by (simp add: resolved_url_def p2p_in_use_def example_world_def example_response_def
        StartsWithASCII_def ToLowerASCII_def char_of_def bit_Suc_0_iff)
qed

subsection \<open>Completion and the output pipe\<close>

text \<open>
  C2, as stated, does not hold: the function tests the output pipe with
  \<open>TEST_AND_RETURN\<close> before it hands over the plan. On the sample without an
  output pipe every check is passed and the device resolves, yet the function returns
  without setting a code, so the outcome is not Success.
\<close>

theorem no_output_pipe_counterexample:
  "input_object no_output_pipe_world = Some example_response
   \<and> update_exists example_response
   \<and> \<not> rollback_applies no_output_pipe_world example_response
   \<and> current_url (payload_state no_output_pipe_world) = ''https://a''
   \<and> install_dev_resolves fake_services no_output_pipe_world
   \<and> \<not> has_output_pipe no_output_pipe_world
   \<and> map_option fst (PerformAction fake_services no_output_pipe_world) = Some None
   \<and> map_option fst (PerformAction fake_services no_output_pipe_world)
       \<noteq> Some (Some kErrorCodeSuccess)"
  by (simp add: no_output_pipe_world_def run_defs)

text \<open>
  C2 (amended): for every activation that passes the abort checks, URL resolution and
  device resolution, the outcome is Success exactly when an output pipe exists, and
  then the plan is handed over and the deadline write is issued; nothing is assumed
  about the result of that write or of the writes to the preferences, so their
  failure does not change the outcome. Without an output pipe the function returns
  without setting a code, produces no plan and leaves the file system untouched.
\<close>

theorem success_needs_output_pipe:
  assumes "input_object w = Some response"
    and "update_exists response"
    and "\<not> rollback_applies w response"
    and "current_url (payload_state w) \<noteq> []"
    and "install_dev_resolves svc w"
  shows "\<exists>w'. PerformAction svc w
                 = Some (if has_output_pipe w then Some kErrorCodeSuccess else None, w')
     \<and> output_object w' = (if has_output_pipe w then Some (install_plan w') else output_object w)
     \<and> filesystem w' =
         (if has_output_pipe w
          then chmod (snd (deadline_write w response)) (deadline_file w)
                 (S_IRUSR OR S_IWUSR OR S_IRGRP OR S_IROTH)
          else filesystem w)"
  using assms(2-5)
  by (simp add: PerformAction_run[OF assms(1)] device_block output_block Let_def
      plan_preds note_rollback_preds plan_frame note_rollback_frame
      deadline_write_install_plan)

theorem success_needs_output_pipe_witness:
  "input_object write_fails_world = Some example_response
   \<and> update_exists example_response
   \<and> current_url (payload_state write_fails_world) = ''https://a''
   \<and> install_dev_resolves failing_prefs_services write_fails_world
   \<and> has_output_pipe write_fails_world
   \<and> fst (deadline_write write_fails_world example_response) = False
   \<and> map_option fst (PerformAction failing_prefs_services write_fails_world)
       = Some (Some kErrorCodeSuccess)"
proof -
  have h: "input_object write_fails_world = Some example_response"
    "update_exists example_response"
    "\<not> rollback_applies write_fails_world example_response"
    "current_url (payload_state write_fails_world) \<noteq> []"
    "install_dev_resolves failing_prefs_services write_fails_world"
    by (simp_all add: write_fails_world_def run_defs)
  have p: "has_output_pipe write_fails_world"
    by (simp add: write_fails_world_def example_world_def)
  from success_needs_output_pipe[OF h] p
  have "map_option fst (PerformAction failing_prefs_services write_fails_world)
          = Some (Some kErrorCodeSuccess)"
    by auto
  then show ?thesis
    using h p by (simp add: write_fails_world_def run_defs)
qed

subsection \<open>Resume bookkeeping\<close>

text \<open>
  C3: whenever a plan is produced, \<open>is_resume\<close> is the value of the resume
  predicate on the stored preferences and the hash of the response. If it is true,
  \<open>UpdateResumed\<close> is called and the preferences are left as they were. If it is
  false, \<open>UpdateRestarted\<close> is called, the progress is reset and the hash is
  stored under the response hash key; a failure of either write is logged as a
  warning, and whatever the two writes return, the outcome stays Success.
\<close>

theorem resume_bookkeeping:
  assumes "input_object w = Some response"
    and "PerformAction svc w = Some (Some kErrorCodeSuccess, w')"
  shows "output_object w' = Some (install_plan w')
     \<and> is_resume (install_plan w') = CanResumeUpdate svc (prefs w) (hash response)
     \<and> (if CanResumeUpdate svc (prefs w) (hash response) then
           UpdateResumedCall \<in> set (calls_made w w')
           \<and> UpdateRestartedCall \<notin> set (calls_made w w')
           \<and> prefs w' = prefs w
         else
           UpdateRestartedCall \<in> set (calls_made w w')
           \<and> UpdateResumedCall \<notin> set (calls_made w w')
           \<and> prefs w' = snd (SetString svc (snd (ResetUpdateProgress svc (prefs w) False))
                               (kPrefsUpdateCheckResponseHash svc) (hash response))
           \<and> ((WARNING, msg_reset_failed) \<in> set (logged w w')
                \<longleftrightarrow> \<not> fst (ResetUpdateProgress svc (prefs w) False))
           \<and> ((WARNING, msg_save_failed) \<in> set (logged w w')
                \<longleftrightarrow> \<not> fst (SetString svc (snd (ResetUpdateProgress svc (prefs w) False))
                               (kPrefsUpdateCheckResponseHash svc) (hash response))))
     \<and> (\<forall>reset save.
           map_option fst (PerformAction (svc\<lparr>ResetUpdateProgress := reset, SetString := save\<rparr>) w)
             = Some (Some kErrorCodeSuccess))"
proof -
  let ?wp = "PerformAction_plan svc response (current_url (payload_state w)) (note_rollback w)"
  have c: "update_exists response" "\<not> rollback_applies w response"
    "current_url (payload_state w) \<noteq> []" "install_dev_resolves svc w" "has_output_pipe w"
    using PerformAction_success_iff[OF assms] by simp_all
  have w': "output_object w' = Some (install_plan w')"
    "is_resume (install_plan w') = is_resume (install_plan ?wp)"
    "prefs w' = prefs ?wp"
    "payload_state w' = payload_state ?wp"
    "logs w' = logs ?wp @ [(INFO, msg_using_plan)]"
    unfolding PerformAction_success[OF assms] by (simp_all add: Let_def)
  have calls: "calls_made w w' =
       (if p2p_in_use w then [SetUsingP2PForDownloadingCall True] else [])
       @ [if CanResumeUpdate svc (prefs w) (hash response) then UpdateResumedCall
          else UpdateRestartedCall]"
    by (rule calls_made_append)
       (simp add: w' plan_calls note_rollback_frame note_rollback_preds)
  have msgs: "msg_reset_failed \<noteq> msg_save_failed"
    by (simp add: msg_reset_failed_def msg_save_failed_def)
  have "\<exists>pre. logged w w' = pre
        @ (if CanResumeUpdate svc (prefs w) (hash response) then []
           else (if fst (ResetUpdateProgress svc (prefs w) False) then []
                 else [(WARNING, msg_reset_failed)])
              @ (if fst (SetString svc (snd (ResetUpdateProgress svc (prefs w) False))
                           (kPrefsUpdateCheckResponseHash svc) (hash response)) then []
                 else [(WARNING, msg_save_failed)]))
        @ [(INFO, msg_using_plan)] \<and> (\<forall>e \<in> set pre. fst e = INFO)"
    apply (rule exI, rule conjI, rule logged_append)
     apply (simp add: w' plan_logs note_rollback_logs note_rollback_frame note_rollback_preds)
    apply auto
    done
  then obtain pre where lg: "logged w w' = pre
        @ (if CanResumeUpdate svc (prefs w) (hash response) then []
           else (if fst (ResetUpdateProgress svc (prefs w) False) then []
                 else [(WARNING, msg_reset_failed)])
              @ (if fst (SetString svc (snd (ResetUpdateProgress svc (prefs w) False))
                           (kPrefsUpdateCheckResponseHash svc) (hash response)) then []
                 else [(WARNING, msg_save_failed)]))
        @ [(INFO, msg_using_plan)]" and pre: "\<forall>e \<in> set pre. fst e = INFO"
    by blast
  have nopre: "(WARNING, m) \<notin> set pre" for m
    using pre by force
  have indep: "map_option fst
        (PerformAction (svc\<lparr>ResetUpdateProgress := reset, SetString := save\<rparr>) w)
          = Some (Some kErrorCodeSuccess)" for reset save
    using c by (simp add: PerformAction_code[OF assms(1)] services_update_preds)
  show ?thesis
    using indep msgs nopre
    by (simp add: w' calls lg plan_is_resume plan_prefs note_rollback_frame)
qed

theorem resume_bookkeeping_witness:
  "input_object example_world = Some example_response
   \<and> PerformAction failing_prefs_services example_world
       = Some (Some kErrorCodeSuccess, snd (the (PerformAction failing_prefs_services example_world)))
   \<and> \<not> CanResumeUpdate failing_prefs_services (prefs example_world) (hash example_response)
   \<and> \<not> is_resume (install_plan (snd (the (PerformAction failing_prefs_services example_world))))
   \<and> calls_made example_world (snd (the (PerformAction failing_prefs_services example_world)))
       = [UpdateRestartedCall]
   \<and> (WARNING, msg_reset_failed)
       \<in> set (logged example_world (snd (the (PerformAction failing_prefs_services example_world))))
   \<and> (WARNING, msg_save_failed)
       \<in> set (logged example_world (snd (the (PerformAction failing_prefs_services example_world))))
   \<and> input_object resume_world = Some example_response
   \<and> PerformAction fake_services resume_world
       = Some (Some kErrorCodeSuccess, snd (the (PerformAction fake_services resume_world)))
   \<and> CanResumeUpdate fake_services (prefs resume_world) (hash example_response)
   \<and> is_resume (install_plan (snd (the (PerformAction fake_services resume_world))))
   \<and> calls_made resume_world (snd (the (PerformAction fake_services resume_world)))
       = [UpdateResumedCall]
   \<and> prefs (snd (the (PerformAction fake_services resume_world))) = prefs resume_world"
proof -
  have inp2: "input_object resume_world = Some example_response"
    by (simp add: resume_world_def example_world_def)
  have run2: "PerformAction fake_services resume_world
       = Some (Some kErrorCodeSuccess, snd (the (PerformAction fake_services resume_world)))"
    by (simp add: resume_world_def run_defs)
  have yes: "CanResumeUpdate fake_services (prefs resume_world) (hash example_response)"
    by (simp add: resume_world_def fake_services_def example_world_def example_response_def)
  have calls2: "calls_made resume_world (snd (the (PerformAction fake_services resume_world)))
       = [UpdateResumedCall]"
    by (simp add: resume_world_def run_defs)
  have inp: "input_object example_world = Some example_response"
    by (simp add: example_world_def)
  have run: "PerformAction failing_prefs_services example_world
       = Some (Some kErrorCodeSuccess, snd (the (PerformAction failing_prefs_services example_world)))"
    by (simp add: run_defs)
  have no: "\<not> CanResumeUpdate failing_prefs_services (prefs example_world) (hash example_response)"
    "\<not> fst (ResetUpdateProgress failing_prefs_services (prefs example_world) False)"
    "\<not> fst (SetString failing_prefs_services
              (snd (ResetUpdateProgress failing_prefs_services (prefs example_world) False))
              (kPrefsUpdateCheckResponseHash failing_prefs_services) (hash example_response))"
    by (simp_all add: failing_prefs_services_def fake_services_def example_world_def)
  have calls: "calls_made example_world (snd (the (PerformAction failing_prefs_services example_world)))
       = [UpdateRestartedCall]"
    by (simp add: run_defs)
  show ?thesis
    using resume_bookkeeping[OF inp run] resume_bookkeeping[OF inp2 run2]
      inp run no calls inp2 run2 yes calls2
    by simp
qed

subsection \<open>The benign returns\<close>




text \<open>
  C5, as stated, does not hold. The return taken on a matching rollback version sets
  neither a completion code nor a flag: on the sample with the stored rollback
  version 1.2.3 the run completes exactly as the run whose install device cannot
  be resolved, and \<open>got_no_update_response_\<close> stays unset, so nothing
  marks the outcome as benign. And when the response announces no update, a
  matching rollback version is never looked at: the run is the no-update return.
\<close>

theorem rollback_status_counterexample:
  "input_object rollback_world = Some example_response
   \<and> update_exists example_response
   \<and> rollback_applies rollback_world example_response
   \<and> input_object device_failure_world = Some example_response
   \<and> \<not> rollback_applies device_failure_world example_response
   \<and> current_url (payload_state device_failure_world) = ''https://a''
   \<and> \<not> install_dev_resolves fake_services device_failure_world
   \<and> map_option fst (PerformAction fake_services rollback_world)
       = map_option fst (PerformAction fake_services device_failure_world)
   \<and> map_option (got_no_update_response \<circ> snd) (PerformAction fake_services rollback_world)
       = Some False
   \<and> input_object no_update_rollback_world = Some (example_response\<lparr>update_exists := False\<rparr>)
   \<and> rollback_applies no_update_rollback_world (example_response\<lparr>update_exists := False\<rparr>)
   \<and> map_option (logged no_update_rollback_world \<circ> snd)
        (PerformAction fake_services no_update_rollback_world) = Some [(INFO, msg_no_updates)]
   \<and> map_option (got_no_update_response \<circ> snd)
        (PerformAction fake_services no_update_rollback_world) = Some True"
  by (simp add: rollback_world_def no_update_rollback_world_def device_failure_world_def
      run_defs)

text \<open>
  C5 (amended): for every response, when the stored rollback version is not empty and
  equals the version of the response, no plan is produced and no completion code is
  set, so that the run completes with the status of a failed device resolution;
  neither the plan member nor the payload state, the preferences or the file system
  change. If the response announces an update the run does nothing but log its two
  messages; if it announces none, the run is the no-update return, which sets
  \<open>got_no_update_response_\<close>. When the stored rollback version is empty or
  differs from the version of the response, a response that announces an update goes
  on to the check of the current URL, and one that announces none takes the
  no-update return.
\<close>

theorem rollback_return:
  assumes "input_object w = Some response"
    and "PerformAction svc w = Some (code, w')"
  shows "(rollback_applies w response \<longrightarrow>
            code = None \<and> output_object w' = output_object w
            \<and> install_plan w' = install_plan w \<and> payload_state w' = payload_state w
            \<and> prefs w' = prefs w \<and> filesystem w' = filesystem w
            \<and> w' = (if update_exists response
                     then w\<lparr>logs := logs w
                            @ [(INFO, msg_detected_rollback (version response)),
                               (INFO, msg_rolled_back_from)]\<rparr>
                     else w\<lparr>got_no_update_response := True,
                            logs := logs w @ [(INFO, msg_no_updates)]\<rparr>)
            \<and> (\<forall>w2 r2. input_object w2 = Some r2 \<and> update_exists r2
                   \<and> \<not> rollback_applies w2 r2 \<and> current_url (payload_state w2) \<noteq> []
                   \<and> \<not> install_dev_resolves svc w2
                 \<longrightarrow> map_option fst (PerformAction svc w2) = Some code))
     \<and> (\<not> rollback_applies w response \<longrightarrow>
            (code, w') =
              (if update_exists response then PerformAction_url svc response (note_rollback w)
               else (None, w\<lparr>got_no_update_response := True,
                              logs := logs w @ [(INFO, msg_no_updates)]\<rparr>))
            \<and> (update_exists response \<and> current_url (payload_state w) = [] \<longrightarrow>
                  code = Some kErrorCodeOmahaResponseInvalid)
            \<and> (update_exists response \<and> current_url (payload_state w) \<noteq> [] \<longrightarrow>
                  plan_version (install_plan w') = version response))"
proof -
  have "PerformAction svc w = Some
     (if \<not> update_exists response then
        (None, LOG INFO msg_no_updates (w\<lparr>got_no_update_response := True\<rparr>))
      else if rollback_applies w response then
        (None, LOG INFO msg_rolled_back_from (note_rollback w))
      else PerformAction_url svc response (note_rollback w))"
    using assms(1)
    by (simp add: PerformAction_def rollback_applies_def note_rollback_def Let_def)
  with assms(2) have run: "(code, w') =
     (if \<not> update_exists response then
        (None, LOG INFO msg_no_updates (w\<lparr>got_no_update_response := True\<rparr>))
      else if rollback_applies w response then
        (None, LOG INFO msg_rolled_back_from (note_rollback w))
      else PerformAction_url svc response (note_rollback w))"
    by simp
  have a: "code = None \<and> output_object w' = output_object w
            \<and> install_plan w' = install_plan w \<and> payload_state w' = payload_state w
            \<and> prefs w' = prefs w \<and> filesystem w' = filesystem w"
    if "rollback_applies w response"
    using run that by (auto simp add: LOG_def note_rollback_frame split: if_splits)
  have b: "w' = (if update_exists response
                 then w\<lparr>logs := logs w
                        @ [(INFO, msg_detected_rollback (version response)),
                           (INFO, msg_rolled_back_from)]\<rparr>
                 else w\<lparr>got_no_update_response := True,
                        logs := logs w @ [(INFO, msg_no_updates)]\<rparr>)"
    if "rollback_applies w response"
    using run that by (auto simp add: LOG_def note_rollback_def rollback_applies_def)
  have f: "map_option fst (PerformAction svc w2) = Some code"
    if "rollback_applies w response" "input_object w2 = Some r2" "update_exists r2"
      "\<not> rollback_applies w2 r2" "current_url (payload_state w2) \<noteq> []"
      "\<not> install_dev_resolves svc w2" for w2 r2
    using a[OF that(1)] that(3-6) by (simp add: PerformAction_code[OF that(2)])
  have c: "(code, w') =
              (if update_exists response then PerformAction_url svc response (note_rollback w)
               else (None, w\<lparr>got_no_update_response := True,
                              logs := logs w @ [(INFO, msg_no_updates)]\<rparr>))"
    if "\<not> rollback_applies w response"
    using run that by (simp add: LOG_def)
  have d: "code = Some kErrorCodeOmahaResponseInvalid"
    if "\<not> rollback_applies w response" "update_exists response"
      "current_url (payload_state w) = []"
    using PerformAction_code[OF assms(1), of svc] assms(2) that by simp
  have e: "plan_version (install_plan w') = version response"
    if "\<not> rollback_applies w response" "update_exists response"
      "current_url (payload_state w) \<noteq> []"
    using assms(2) that
    by (auto simp add: PerformAction_run[OF assms(1)] device_block output_block Let_def
        plan_version split: if_splits)
  show ?thesis
    using a b c d e f by blast
qed

theorem rollback_return_witness:
  "input_object rollback_world = Some example_response
   \<and> rollback_applies rollback_world example_response
   \<and> update_exists example_response
   \<and> PerformAction fake_services rollback_world
       = Some (None, rollback_world
                 \<lparr>logs := [(INFO, msg_detected_rollback ''1.2.3''), (INFO, msg_rolled_back_from)]\<rparr>)
   \<and> input_object device_failure_world = Some example_response
   \<and> \<not> rollback_applies device_failure_world example_response
   \<and> current_url (payload_state device_failure_world) = ''https://a''
   \<and> \<not> install_dev_resolves fake_services device_failure_world
   \<and> map_option fst (PerformAction fake_services device_failure_world) = Some None
   \<and> input_object no_update_rollback_world = Some (example_response\<lparr>update_exists := False\<rparr>)
   \<and> rollback_applies no_update_rollback_world (example_response\<lparr>update_exists := False\<rparr>)
   \<and> PerformAction fake_services no_update_rollback_world
       = Some (None, no_update_rollback_world
                 \<lparr>got_no_update_response := True, logs := [(INFO, msg_no_updates)]\<rparr>)
   \<and> input_object example_world = Some example_response
   \<and> \<not> rollback_applies example_world example_response
   \<and> current_url (payload_state example_world) = ''https://a''
   \<and> map_option (plan_version \<circ> install_plan \<circ> snd) (PerformAction fake_services example_world)
       = Some ''1.2.3''"
proof -
  have h: "input_object rollback_world = Some example_response"
    "rollback_applies rollback_world example_response"
    "update_exists example_response"
    by (simp_all add: rollback_world_def run_defs)
  have run: "PerformAction fake_services rollback_world
       = Some (fst (the (PerformAction fake_services rollback_world)),
               snd (the (PerformAction fake_services rollback_world)))"
    by (simp add: PerformAction_def h(1))
  have d: "input_object device_failure_world = Some example_response"
    "\<not> rollback_applies device_failure_world example_response"
    "current_url (payload_state device_failure_world) = ''https://a''"
    "\<not> install_dev_resolves fake_services device_failure_world"
    by (simp_all add: device_failure_world_def run_defs)
  have dne: "current_url (payload_state device_failure_world) \<noteq> []"
    using d(3) by simp
  have n: "input_object no_update_rollback_world
             = Some (example_response\<lparr>update_exists := False\<rparr>)"
    "rollback_applies no_update_rollback_world (example_response\<lparr>update_exists := False\<rparr>)"
    "\<not> update_exists (example_response\<lparr>update_exists := False\<rparr>)"
    by (simp_all add: no_update_rollback_world_def rollback_world_def run_defs)
  have runn: "PerformAction fake_services no_update_rollback_world
       = Some (fst (the (PerformAction fake_services no_update_rollback_world)),
               snd (the (PerformAction fake_services no_update_rollback_world)))"
    by (simp add: PerformAction_def n(1))
  have h2: "input_object example_world = Some example_response"
    "\<not> rollback_applies example_world example_response"
    "current_url (payload_state example_world) = ''https://a''"
    by (simp_all add: run_defs)
  have run2: "PerformAction fake_services example_world
       = Some (fst (the (PerformAction fake_services example_world)),
               snd (the (PerformAction fake_services example_world)))"
    by (simp add: PerformAction_def h2(1))
  have v: "logs rollback_world = []" "version example_response = ''1.2.3''"
    "logs no_update_rollback_world = []"
    by (simp_all add: no_update_rollback_world_def rollback_world_def example_world_def
        example_response_def)
  note t = rollback_return[OF h(1) run]
  have r1: "fst (the (PerformAction fake_services rollback_world)) = None"
    using t h(2) by blast
  have r2: "snd (the (PerformAction fake_services rollback_world)) = rollback_world
           \<lparr>logs := logs rollback_world
              @ [(INFO, msg_detected_rollback (version example_response)),
                 (INFO, msg_rolled_back_from)]\<rparr>"
    using t h(2,3) by simp
  have A: "PerformAction fake_services rollback_world
       = Some (None, rollback_world
                 \<lparr>logs := [(INFO, msg_detected_rollback ''1.2.3''), (INFO, msg_rolled_back_from)]\<rparr>)"
    using run r1 r2 v by simp
  have "map_option fst (PerformAction fake_services device_failure_world)
          = Some (fst (the (PerformAction fake_services rollback_world)))"
    using t h(2,3) d(1,2,4) dne by blast
  then have D: "map_option fst (PerformAction fake_services device_failure_world) = Some None"
    using r1 by simp
  note tn = rollback_return[OF n(1) runn]
  have n1: "fst (the (PerformAction fake_services no_update_rollback_world)) = None"
    using tn n(2) by blast
  have n2: "snd (the (PerformAction fake_services no_update_rollback_world))
      = no_update_rollback_world
          \<lparr>got_no_update_response := True,
           logs := logs no_update_rollback_world @ [(INFO, msg_no_updates)]\<rparr>"
    using tn n(2,3) by simp
  have N: "PerformAction fake_services no_update_rollback_world
       = Some (None, no_update_rollback_world
                 \<lparr>got_no_update_response := True, logs := [(INFO, msg_no_updates)]\<rparr>)"
    using runn n1 n2 v by simp
  have ne: "current_url (payload_state example_world) \<noteq> []"
    using h2(3) by simp
  have "plan_version (install_plan (snd (the (PerformAction fake_services example_world))))
      = version example_response"
    using rollback_return[OF h2(1) run2] h2(2) h(3) ne by blast
  then have B: "map_option (plan_version \<circ> install_plan \<circ> snd)
       (PerformAction fake_services example_world) = Some ''1.2.3''"
    using v(2) by (subst run2) simp
  show ?thesis
    by (intro conjI h d(1,2,3,4) n(1,2) h2 A D N B)
qed

subsection \<open>The error returns\<close>

text \<open>
  C6: if the update exists, the rollback abort does not apply and the current URL is
  empty, the run sets the code \<open>kErrorCodeOmahaResponseInvalid\<close>, logs the error
  and changes nothing else, so no plan is produced. A run that fails to resolve the
  install device returns without setting a code; its completion status is not the
  one set here.
\<close>

theorem empty_current_url_is_invalid_response:
  assumes "input_object w = Some response"
    and "update_exists response"
    and "\<not> rollback_applies w response"
    and "current_url (payload_state w) = []"
    and "PerformAction svc w = Some (code, w')"
  shows "code = Some kErrorCodeOmahaResponseInvalid
     \<and> w' = (note_rollback w)\<lparr>logs := logs (note_rollback w) @ [(ERROR, msg_no_suitable_urls)]\<rparr>
     \<and> output_object w' = output_object w
     \<and> install_plan w' = install_plan w
     \<and> (\<forall>w2 r2. input_object w2 = Some r2 \<and> update_exists r2 \<and> \<not> rollback_applies w2 r2
            \<and> current_url (payload_state w2) \<noteq> [] \<and> \<not> install_dev_resolves svc w2
          \<longrightarrow> map_option fst (PerformAction svc w2) = Some None
              \<and> map_option fst (PerformAction svc w2) \<noteq> Some code)"
  using assms(2-5)
  by (auto simp add: PerformAction_run[OF assms(1)] PerformAction_code LOG_def
      note_rollback_frame)

theorem empty_current_url_is_invalid_response_witness:
  "input_object empty_url_world = Some example_response
   \<and> update_exists example_response
   \<and> \<not> rollback_applies empty_url_world example_response
   \<and> current_url (payload_state empty_url_world) = []
   \<and> fst (the (PerformAction fake_services empty_url_world)) = Some kErrorCodeOmahaResponseInvalid
   \<and> output_object (snd (the (PerformAction fake_services empty_url_world))) = None
   \<and> input_object device_failure_world = Some example_response
   \<and> current_url (payload_state device_failure_world) = ''https://a''
   \<and> \<not> install_dev_resolves fake_services device_failure_world
   \<and> map_option fst (PerformAction fake_services device_failure_world) = Some None"
proof -
  have h: "input_object empty_url_world = Some example_response"
    "update_exists example_response"
    "\<not> rollback_applies empty_url_world example_response"
    "current_url (payload_state empty_url_world) = []"
    by (simp_all add: empty_url_world_def run_defs)
  have run: "PerformAction fake_services empty_url_world
       = Some (fst (the (PerformAction fake_services empty_url_world)),
               snd (the (PerformAction fake_services empty_url_world)))"
    by (simp add: PerformAction_def h(1))
  have d: "input_object device_failure_world = Some example_response"
    "\<not> rollback_applies device_failure_world example_response"
    "current_url (payload_state device_failure_world) = ''https://a''"
    "\<not> install_dev_resolves fake_services device_failure_world"
    by (simp_all add: device_failure_world_def run_defs)
  have ne: "current_url (payload_state device_failure_world) \<noteq> []"
    using d(3) by simp
  have out: "output_object empty_url_world = None"
    by (simp add: empty_url_world_def example_world_def)
  note t = empty_current_url_is_invalid_response[OF h run]
  have "fst (the (PerformAction fake_services empty_url_world)) = Some kErrorCodeOmahaResponseInvalid"
    and "output_object (snd (the (PerformAction fake_services empty_url_world)))
           = output_object empty_url_world"
    and "map_option fst (PerformAction fake_services device_failure_world) = Some None"
    using t d(1,2,4) ne h(2) by blast+
  then show ?thesis
    using h d out by simp
qed

subsection \<open>Peer-assisted downloading\<close>

text \<open>
  C7: if peer-assisted downloading is enabled and the peer URL is not empty, every
  produced plan has the peer URL as its download URL, whatever the payload URLs and
  the current URL are, and the flag of the payload state is set when the plan is
  produced. More generally every run that gets past the check of the current URL
  calls \<open>SetUsingP2PForDownloading(true)\<close> and leaves the flag set.
\<close>

theorem p2p_url_replaces_download_url:
  assumes "input_object w = Some response"
    and "use_p2p_for_downloading (request_params w)"
    and "p2p_url (request_params w) \<noteq> []"
    and "PerformAction svc w = Some (code, w')"
  shows "(code = Some kErrorCodeSuccess \<longrightarrow>
            output_object w' = Some (install_plan w')
            \<and> download_url (install_plan w') = p2p_url (request_params w)
            \<and> using_p2p_for_downloading (payload_state w'))
     \<and> (update_exists response \<and> \<not> rollback_applies w response
          \<and> current_url (payload_state w) \<noteq> [] \<longrightarrow>
            using_p2p_for_downloading (payload_state w')
            \<and> SetUsingP2PForDownloadingCall True \<in> set (calls_made w w'))"
proof -
  have p2p: "p2p_in_use w"
    using assms(2,3) by (simp add: p2p_in_use_def)
  have a: "output_object w' = Some (install_plan w')
           \<and> download_url (install_plan w') = p2p_url (request_params w)"
    if "code = Some kErrorCodeSuccess"
    using produced_plan_url[OF assms(1), of svc w'] that p2p assms(4) by (simp add: resolved_url_def)
  have b: "using_p2p_for_downloading (payload_state w')
           \<and> SetUsingP2PForDownloadingCall True \<in> set (calls_made w w')"
    if "update_exists response" "\<not> rollback_applies w response"
      "current_url (payload_state w) \<noteq> []"
  proof -
    have ps: "payload_state w' = payload_state
        (PerformAction_plan svc response (current_url (payload_state w)) (note_rollback w))"
      using PerformAction_reaches_plan(1)[OF assms(1,4) that] .
    have "calls_made w w' = [SetUsingP2PForDownloadingCall True]
        @ [if CanResumeUpdate svc (prefs w) (hash response) then UpdateResumedCall
           else UpdateRestartedCall]"
      by (rule calls_made_append)
         (simp add: ps plan_calls note_rollback_frame note_rollback_preds p2p)
    then show ?thesis
      by (simp add: ps plan_using_p2p note_rollback_preds p2p)
  qed
  have c: "using_p2p_for_downloading (payload_state w')" if "code = Some kErrorCodeSuccess"
    using PerformAction_success_iff[OF assms(1,4)] that b by blast
  show ?thesis
    using a b c by blast
qed

theorem p2p_url_replaces_download_url_witness:
  "input_object p2p_world = Some example_response
   \<and> use_p2p_for_downloading (request_params p2p_world)
   \<and> p2p_url (request_params p2p_world) = ''http://10.0.0.7:1234/payload''
   \<and> payload_urls example_response = [''https://a'']
   \<and> current_url (payload_state p2p_world) = ''https://a''
   \<and> \<not> using_p2p_for_downloading (payload_state p2p_world)
   \<and> fst (the (PerformAction fake_services p2p_world)) = Some kErrorCodeSuccess
   \<and> download_url (install_plan (snd (the (PerformAction fake_services p2p_world))))
       = ''http://10.0.0.7:1234/payload''
   \<and> using_p2p_for_downloading (payload_state (snd (the (PerformAction fake_services p2p_world))))"
proof -
  have h: "input_object p2p_world = Some example_response"
    "use_p2p_for_downloading (request_params p2p_world)"
    "p2p_url (request_params p2p_world) \<noteq> []"
    by (simp_all add: p2p_world_def example_world_def)
  have run: "PerformAction fake_services p2p_world
       = Some (fst (the (PerformAction fake_services p2p_world)),
               snd (the (PerformAction fake_services p2p_world)))"
    by (simp add: PerformAction_def h(1))
  have v: "p2p_url (request_params p2p_world) = ''http://10.0.0.7:1234/payload''"
    "payload_urls example_response = [''https://a'']"
    "current_url (payload_state p2p_world) = ''https://a''"
    "\<not> using_p2p_for_downloading (payload_state p2p_world)"
    "update_exists example_response"
    "\<not> rollback_applies p2p_world example_response"
    by (simp_all add: p2p_world_def example_world_def example_response_def rollback_applies_def)
  have ne: "current_url (payload_state p2p_world) \<noteq> []"
    using v(3) by simp
  have ok: "fst (the (PerformAction fake_services p2p_world)) = Some kErrorCodeSuccess"
    by (simp add: p2p_world_def run_defs)
  note t = p2p_url_replaces_download_url[OF h run]
  have "download_url (install_plan (snd (the (PerformAction fake_services p2p_world))))
          = p2p_url (request_params p2p_world)"
    and "using_p2p_for_downloading (payload_state (snd (the (PerformAction fake_services p2p_world))))"
    using t ok v(5,6) ne by blast+
  then show ?thesis
    using h v ok by simp
qed

subsection \<open>The deadline file\<close>

text \<open>
  C8, as stated, does not hold: the result of the write is ignored, so the outcome is
  Success also when the deadline file could not be written. On the sample whose
  deadline file cannot be opened for writing, the outcome is Success and the file
  still has its old contents, not the deadline of the response.
\<close>

theorem deadline_write_failure_counterexample:
  "map_option fst (PerformAction fake_services write_fails_world) = Some (Some kErrorCodeSuccess)
   \<and> input_object write_fails_world = Some example_response
   \<and> deadline example_response = ''D1''
   \<and> map_option (\<lambda>res. map_option content
          (files (filesystem (snd res)) (deadline_file write_fails_world)))
        (PerformAction fake_services write_fails_world) = Some (Some ''old'')"
  by (simp add: write_fails_world_def run_defs)

text \<open>
  C8 (amended): after every activation completing with Success, the write of exactly
  the bytes of the deadline of the response (none for an empty deadline) to the
  deadline file has been issued, followed by the change of its permission bits. If
  the write succeeds, the file holds exactly those bytes with the bits
  \<open>rw-r--r--\<close>. Nothing is required of the write for the outcome to be
  Success, and nothing is said of the contents of the file after a write that
  failed.
\<close>

theorem deadline_file_after_success:
  assumes "input_object w = Some response"
    and "PerformAction svc w = Some (Some kErrorCodeSuccess, w')"
  shows "filesystem w' = chmod (snd (deadline_write w response)) (deadline_file w)
                           (S_IRUSR OR S_IWUSR OR S_IRGRP OR S_IROTH)
     \<and> deadline_file w' = deadline_file w
     \<and> (fst (deadline_write w response) \<longrightarrow>
           files (filesystem w') (deadline_file w)
             = Some \<lparr>content = deadline response, mode = 420\<rparr>)"
proof -
  have fs: "filesystem w' = chmod (snd (deadline_write w response)) (deadline_file w)
                           (S_IRUSR OR S_IWUSR OR S_IRGRP OR S_IROTH)"
    and df: "deadline_file w' = deadline_file w"
    unfolding PerformAction_success[OF assms]
    by (simp_all add: Let_def plan_frame note_rollback_frame)
  have m: "S_IRUSR OR S_IWUSR OR S_IRGRP OR S_IROTH = 420"
    by (simp add: S_IRUSR_def S_IWUSR_def S_IRGRP_def S_IROTH_def)
  show ?thesis
    unfolding fs df m
    by (simp add: deadline_write_def WriteFile_def chmod_def)
qed

theorem deadline_file_after_success_witness:
  "input_object example_world = Some example_response
   \<and> PerformAction fake_services example_world
       = Some (Some kErrorCodeSuccess, snd (the (PerformAction fake_services example_world)))
   \<and> fst (deadline_write example_world example_response)
   \<and> files (filesystem (snd (the (PerformAction fake_services example_world)))) kDeadlineFile
       = Some \<lparr>content = ''D1'', mode = 420\<rparr>
   \<and> input_object empty_deadline_world = Some (example_response\<lparr>deadline := []\<rparr>)
   \<and> PerformAction fake_services empty_deadline_world
       = Some (Some kErrorCodeSuccess, snd (the (PerformAction fake_services empty_deadline_world)))
   \<and> files (filesystem (snd (the (PerformAction fake_services empty_deadline_world)))) kDeadlineFile
       = Some \<lparr>content = [], mode = 420\<rparr>
   \<and> input_object write_fails_world = Some example_response
   \<and> PerformAction fake_services write_fails_world
       = Some (Some kErrorCodeSuccess, snd (the (PerformAction fake_services write_fails_world)))
   \<and> \<not> fst (deadline_write write_fails_world example_response)
   \<and> files (filesystem (snd (the (PerformAction fake_services write_fails_world)))) kDeadlineFile
       = Some \<lparr>content = ''old'', mode = 420\<rparr>"
proof -
  have i1: "input_object example_world = Some example_response"
    and i2: "input_object empty_deadline_world = Some (example_response\<lparr>deadline := []\<rparr>)"
    and i3: "input_object write_fails_world = Some example_response"
    by (simp_all add: example_world_def empty_deadline_world_def write_fails_world_def)
  have r1: "PerformAction fake_services example_world
       = Some (Some kErrorCodeSuccess, snd (the (PerformAction fake_services example_world)))"
    by (simp add: run_defs)
  have r2: "PerformAction fake_services empty_deadline_world
       = Some (Some kErrorCodeSuccess, snd (the (PerformAction fake_services empty_deadline_world)))"
    by (simp add: empty_deadline_world_def run_defs)
  have r3: "PerformAction fake_services write_fails_world
       = Some (Some kErrorCodeSuccess, snd (the (PerformAction fake_services write_fails_world)))"
    by (simp add: write_fails_world_def run_defs)
  have w1: "fst (deadline_write example_world example_response)"
    "deadline_file example_world = kDeadlineFile" "deadline example_response = ''D1''"
    by (simp_all add: deadline_write_def WriteFile_def example_world_def example_response_def)
  have w2: "fst (deadline_write empty_deadline_world (example_response\<lparr>deadline := []\<rparr>))"
    "deadline_file empty_deadline_world = kDeadlineFile"
    by (simp_all add: deadline_write_def WriteFile_def empty_deadline_world_def example_world_def)
  have w3: "\<not> fst (deadline_write write_fails_world example_response)"
    by (simp add: deadline_write_def WriteFile_def write_fails_world_def example_world_def)
  have a: "files (filesystem (snd (the (PerformAction fake_services example_world)))) kDeadlineFile
       = Some \<lparr>content = ''D1'', mode = 420\<rparr>"
  proof -
    have "files (filesystem (snd (the (PerformAction fake_services example_world))))
            (deadline_file example_world)
          = Some \<lparr>content = deadline example_response, mode = 420\<rparr>"
      using deadline_file_after_success[OF i1 r1] w1(1) by blast
    then show ?thesis
      by (simp only: w1(2,3))
  qed
  have b: "files (filesystem (snd (the (PerformAction fake_services empty_deadline_world))))
             kDeadlineFile = Some \<lparr>content = [], mode = 420\<rparr>"
  proof -
    have "files (filesystem (snd (the (PerformAction fake_services empty_deadline_world))))
            (deadline_file empty_deadline_world)
          = Some \<lparr>content = deadline (example_response\<lparr>deadline := []\<rparr>), mode = 420\<rparr>"
      using deadline_file_after_success[OF i2 r2] w2(1) by blast
    then show ?thesis
      by (simp add: w2(2))
  qed
  have c: "files (filesystem (snd (the (PerformAction fake_services write_fails_world))))
             kDeadlineFile = Some \<lparr>content = ''old'', mode = 420\<rparr>"
  proof -
    have "filesystem (snd (the (PerformAction fake_services write_fails_world)))
          = chmod (snd (deadline_write write_fails_world example_response))
              (deadline_file write_fails_world) (S_IRUSR OR S_IWUSR OR S_IRGRP OR S_IROTH)"
      using deadline_file_after_success[OF i3 r3] by blast
    then show ?thesis
      by (simp add: deadline_write_def WriteFile_def chmod_def write_fails_world_def
          example_world_def S_IRUSR_def S_IWUSR_def S_IRGRP_def S_IROTH_def)
  qed
  show ?thesis
    by (intro conjI i1 i2 i3 r1 r2 r3 w1(1) w3 a b c)
qed

subsection \<open>Writes that outlive an error\<close>

text \<open>
  C9: when the update cannot be resumed and the install device then fails to resolve,
  the run returns without setting a code and without producing a plan, and the
  bookkeeping done before is still in place at the return: \<open>UpdateRestarted\<close>
  was called, and the preferences are those left by the reset of the progress
  followed by the storing of the hash of the response under the response hash key.
\<close>

theorem device_failure_keeps_progress_writes:
  assumes "input_object w = Some response"
    and "update_exists response"
    and "\<not> rollback_applies w response"
    and "current_url (payload_state w) \<noteq> []"
    and "\<not> CanResumeUpdate svc (prefs w) (hash response)"
    and "\<not> install_dev_resolves svc w"
    and "PerformAction svc w = Some (code, w')"
  shows "code = None
     \<and> output_object w' = output_object w
     \<and> \<not> is_resume (install_plan w')
     \<and> UpdateRestartedCall \<in> set (calls_made w w')
     \<and> prefs w' = snd (SetString svc (snd (ResetUpdateProgress svc (prefs w) False))
                         (kPrefsUpdateCheckResponseHash svc) (hash response))"
proof -
  note r = PerformAction_reaches_plan[OF assms(1,7,2,3,4)]
  have "calls_made w w' =
       (if p2p_in_use w then [SetUsingP2PForDownloadingCall True] else [])
       @ [UpdateRestartedCall]"
    by (rule calls_made_append)
       (simp add: r(1) plan_calls note_rollback_frame note_rollback_preds assms(5))
  then show ?thesis
    using r(4) assms(5,6)
    by (simp add: r(2,3) plan_prefs note_rollback_frame)
qed

theorem device_failure_keeps_progress_writes_witness:
  "input_object device_failure_world = Some example_response
   \<and> update_exists example_response
   \<and> \<not> rollback_applies device_failure_world example_response
   \<and> current_url (payload_state device_failure_world) = ''https://a''
   \<and> \<not> CanResumeUpdate fake_services (prefs device_failure_world) (hash example_response)
   \<and> \<not> install_dev_resolves fake_services device_failure_world
   \<and> fst (the (PerformAction fake_services device_failure_world)) = None
   \<and> output_object (snd (the (PerformAction fake_services device_failure_world))) = None
   \<and> prefs (snd (the (PerformAction fake_services device_failure_world)))
       = [(''update-check-response-hash'', ''abc''), (''update-state-next-operation'', ''-1'')]"
proof -
  have h: "input_object device_failure_world = Some example_response"
    "update_exists example_response"
    "\<not> rollback_applies device_failure_world example_response"
    "current_url (payload_state device_failure_world) \<noteq> []"
    "\<not> CanResumeUpdate fake_services (prefs device_failure_world) (hash example_response)"
    "\<not> install_dev_resolves fake_services device_failure_world"
    by (simp_all add: device_failure_world_def run_defs)
  have run: "PerformAction fake_services device_failure_world
       = Some (fst (the (PerformAction fake_services device_failure_world)),
               snd (the (PerformAction fake_services device_failure_world)))"
    by (simp add: PerformAction_def h(1))
  have v: "current_url (payload_state device_failure_world) = ''https://a''"
    "output_object device_failure_world = None"
    "snd (SetString fake_services
            (snd (ResetUpdateProgress fake_services (prefs device_failure_world) False))
            (kPrefsUpdateCheckResponseHash fake_services) (hash example_response))
       = [(''update-check-response-hash'', ''abc''), (''update-state-next-operation'', ''-1'')]"
    by (simp_all add: device_failure_world_def fake_services_def example_world_def
        example_response_def)
  note t = device_failure_keeps_progress_writes[OF h run]
  have a: "fst (the (PerformAction fake_services device_failure_world)) = None"
    using t by blast
  have b: "output_object (snd (the (PerformAction fake_services device_failure_world))) = None"
    using t v(2) by simp
  have c: "prefs (snd (the (PerformAction fake_services device_failure_world)))
       = [(''update-check-response-hash'', ''abc''), (''update-state-next-operation'', ''-1'')]"
    using t v(3) by simp
  show ?thesis
    by (intro conjI h(1,2,3,5,6) v(1) a b c)
qed

subsection \<open>The flag of peer-assisted downloading is only ever set\<close>

text \<open>
  C10: no run calls \<open>SetUsingP2PForDownloading(false)\<close>. A run calls
  \<open>SetUsingP2PForDownloading(true)\<close> only when peer-assisted downloading is enabled
  and the peer URL is not empty; the flag after the run is the flag before it or
  true by that call, so every other run leaves the flag as it was.
\<close>

theorem p2p_flag_only_set:
  assumes "PerformAction svc w = Some (code, w')"
  shows "SetUsingP2PForDownloadingCall False \<notin> set (calls_made w w')
     \<and> (SetUsingP2PForDownloadingCall True \<in> set (calls_made w w') \<longrightarrow>
           use_p2p_for_downloading (request_params w) \<and> p2p_url (request_params w) \<noteq> [])
     \<and> using_p2p_for_downloading (payload_state w')
         = (using_p2p_for_downloading (payload_state w)
            \<or> SetUsingP2PForDownloadingCall True \<in> set (calls_made w w'))
     \<and> (\<not> (use_p2p_for_downloading (request_params w) \<and> p2p_url (request_params w) \<noteq> []) \<longrightarrow>
           using_p2p_for_downloading (payload_state w')
             = using_p2p_for_downloading (payload_state w))"
proof -
  obtain r where inp: "input_object w = Some r"
    using assms by (rule PerformAction_input)
  show ?thesis
  proof (cases "update_exists r \<and> \<not> rollback_applies w r \<and> current_url (payload_state w) \<noteq> []")
    case True
    then have c: "update_exists r" "\<not> rollback_applies w r" "current_url (payload_state w) \<noteq> []"
      by simp_all
    note ps = PerformAction_reaches_plan(1)[OF inp assms c]
    have "calls_made w w' =
       (if p2p_in_use w then [SetUsingP2PForDownloadingCall True] else [])
       @ [if CanResumeUpdate svc (prefs w) (hash r) then UpdateResumedCall
          else UpdateRestartedCall]"
      by (rule calls_made_append)
         (simp add: ps plan_calls note_rollback_frame note_rollback_preds)
    then show ?thesis
      by (auto simp add: ps plan_using_p2p note_rollback_frame note_rollback_preds
          p2p_in_use_def)
  next
    case False
    then have "payload_state w' = payload_state w"
      using PerformAction_stops_early(1)[OF inp assms] by blast
    then show ?thesis
      by (simp add: calls_made_def)
  qed
qed

theorem p2p_flag_only_set_witness:
  "PerformAction fake_services p2p_world
     = Some (fst (the (PerformAction fake_services p2p_world)),
             snd (the (PerformAction fake_services p2p_world)))
   \<and> use_p2p_for_downloading (request_params p2p_world)
   \<and> p2p_url (request_params p2p_world) = ''http://10.0.0.7:1234/payload''
   \<and> calls_made p2p_world (snd (the (PerformAction fake_services p2p_world)))
       = [SetUsingP2PForDownloadingCall True, UpdateRestartedCall]
   \<and> using_p2p_for_downloading (payload_state (snd (the (PerformAction fake_services p2p_world))))
   \<and> PerformAction fake_services p2p_was_used_world
     = Some (fst (the (PerformAction fake_services p2p_was_used_world)),
             snd (the (PerformAction fake_services p2p_was_used_world)))
   \<and> use_p2p_for_downloading (request_params p2p_was_used_world) = False
   \<and> using_p2p_for_downloading (payload_state p2p_was_used_world)
   \<and> using_p2p_for_downloading
        (payload_state (snd (the (PerformAction fake_services p2p_was_used_world))))"
proof -
  have r1: "PerformAction fake_services p2p_world
     = Some (fst (the (PerformAction fake_services p2p_world)),
             snd (the (PerformAction fake_services p2p_world)))"
    by (simp add: PerformAction_def p2p_world_def example_world_def)
  have r2: "PerformAction fake_services p2p_was_used_world
     = Some (fst (the (PerformAction fake_services p2p_was_used_world)),
             snd (the (PerformAction fake_services p2p_was_used_world)))"
    by (simp add: PerformAction_def p2p_was_used_world_def example_world_def)
  have v: "use_p2p_for_downloading (request_params p2p_world)"
    "p2p_url (request_params p2p_world) = ''http://10.0.0.7:1234/payload''"
    "use_p2p_for_downloading (request_params p2p_was_used_world) = False"
    "using_p2p_for_downloading (payload_state p2p_was_used_world)"
    by (simp_all add: p2p_world_def p2p_was_used_world_def example_world_def)
  have calls: "calls_made p2p_world (snd (the (PerformAction fake_services p2p_world)))
       = [SetUsingP2PForDownloadingCall True, UpdateRestartedCall]"
    by (simp add: p2p_world_def run_defs)
  have a: "using_p2p_for_downloading
             (payload_state (snd (the (PerformAction fake_services p2p_world))))"
    using p2p_flag_only_set[OF r1] calls by simp
  have b: "using_p2p_for_downloading
             (payload_state (snd (the (PerformAction fake_services p2p_was_used_world))))"
    using p2p_flag_only_set[OF r2] v(3,4) by simp
  show ?thesis
    by (intro conjI r1 r2 v calls a b)
qed

end
